theory Spec2Isabelle
  imports Complex_Main "HOL-Library.Word"
begin

section \<open>OptimalHouse: the proforma engine and the seeded property simulator\<close>

text \<open>
  A shallow embedding of \<^verbatim>\<open>src/utils/calculations.ts\<close> (the mortgage formula and
  \<^verbatim>\<open>calculateProforma\<close>), of the seeded version of \<^verbatim>\<open>src/utils/defaults.ts\<close>
  (\<^verbatim>\<open>seededRandom\<close>, \<^verbatim>\<open>generateSeed\<close>, \<^verbatim>\<open>simulatePropertyData\<close>) and of
  \<^verbatim>\<open>src/types\<close>.

  Numbers. A TypeScript \<^verbatim>\<open>number\<close> is modelled as a \<^typ>\<open>real\<close>: \<^verbatim>\<open>+\<close>, \<^verbatim>\<open>-\<close>, \<^verbatim>\<open>*\<close>
  and \<^verbatim>\<open>/\<close> are the exact operations, \<^verbatim>\<open>Math.sin\<close> is \<^const>\<open>sin\<close>, \<^verbatim>\<open>Math.floor\<close> is
  \<^const>\<open>floor\<close>, \<^verbatim>\<open>Math.pow\<close> on a positive base is \<^const>\<open>powr\<close>. The theorems below are
  therefore statements about the formulas of the program in exact arithmetic; the
  rounding of IEEE-754 doubles, \<^verbatim>\<open>NaN\<close> and the infinities are not part of the model.
\<close>

subsection \<open>The types of \<^verbatim>\<open>src/types\<close>\<close>



record Assumptions =
  purchasePrice :: real
  downPaymentPercent :: real
  interestRate :: real
  loanTerm :: real
  closingCostsPercent :: real
  landValuePercent :: real
  monthlyRent :: real
  vacancyPercent :: real
  avgNightlyRate :: real
  occupancyRate :: real
  airbnbFeePercent :: real
  equivalentRent :: real
  propertyTaxPercent :: real
  homeInsurancePercent :: real
  monthlyHOA :: real
  maintenancePercent :: real
  utilitiesMonthly :: real
  mgmtFeePercent :: real

record PersonalInfo =
  federalTaxRate :: real
  stateTaxRate :: real
  opportunityCostRate :: real

datatype Scenario = Rental | Airbnb | Owner

record BaseProforma =
  scenario :: Scenario
  totalCashNeeded :: real
  annualPropertyTax :: real
  annualHomeInsurance :: real
  annualHOA :: real
  annualUtilities :: real
  opportunityCost :: real
  year1Principal :: real

text \<open>
  \<^verbatim>\<open>OwnerProforma\<close> and \<^verbatim>\<open>RentalProforma\<close> both have fields \<^verbatim>\<open>totalExpenses\<close>,
  \<^verbatim>\<open>year1Interest\<close> and \<^verbatim>\<open>taxBenefit\<close>; they are told apart by the record's name
  (\<open>OwnerProforma.taxBenefit\<close>, \<open>RentalProforma.taxBenefit\<close>).
\<close>

record OwnerProforma = BaseProforma +
  grossAvoidedRent :: real
  totalAnnualCost :: real
  totalExpenses :: real
  annualPITI :: real
  year1Interest :: real
  deductiblePropTax :: real
  totalDeductions :: real
  taxBenefit :: real
  netAnnualCost :: real
  netBenefit :: real
  monthlyTotalCost :: real
  netMonthlyCost :: real

record RentalProforma = BaseProforma +
  grossPotentialIncome :: real
  vacancyLoss :: real
  effectiveGrossIncome :: real
  totalOpEx :: real
  maintenance :: real
  managementFee :: real
  platformFee :: real
  annualMortgagePayment :: real
  totalExpenses :: real
  cashFlowBeforeTax :: real
  year1Interest :: real
  annualDepreciation :: real
  netTaxableIncome :: real
  taxBenefit :: real
  cashFlowAfterTax :: real
  capRate :: real
  cashOnCashReturn :: real
  cashFlowPerMonth :: real

text \<open>
  \<^verbatim>\<open>type Proforma = RentalProforma | OwnerProforma\<close>. The third constructor is the value
  of the fallback \<^verbatim>\<open>return proforma as Proforma\<close> at the end of \<^verbatim>\<open>calculateProforma\<close>.
\<close>

datatype Proforma =
  RentalResult RentalProforma
  | OwnerResult OwnerProforma
  | BaseResult BaseProforma

subsection \<open>\<^verbatim>\<open>calculateMonthlyPI\<close>\<close>

text \<open>
  The three returns of \<^verbatim>\<open>calculateMonthlyPI\<close>, in the order of the source: the guard of
  line 32, the zero-rate return of line 36, the annuity formula of lines 38 to 42.
\<close>

datatype PIReturn = DegenerateInput | ZeroRate | Annuity

text \<open>The function, with each result tagged by the return statement that produced it.\<close>

definition calculateMonthlyPI_at :: "real \<Rightarrow> real \<Rightarrow> real \<Rightarrow> PIReturn \<times> real" where
  "calculateMonthlyPI_at principal' annualRate loanTermYears =
     (if principal' \<le> 0 \<or> annualRate \<le> 0 \<or> loanTermYears \<le> 0 then (DegenerateInput, 0)
      else
        let monthlyRate = annualRate / 12;
            numberOfPayments = loanTermYears * 12
        in
          if monthlyRate = 0 then (ZeroRate, principal' / numberOfPayments)
          else
            let payment =
                  principal' *
                  (monthlyRate * (1 + monthlyRate) powr numberOfPayments) /
                  ((1 + monthlyRate) powr numberOfPayments - 1)
            in (Annuity, payment))"

definition calculateMonthlyPI :: "real \<Rightarrow> real \<Rightarrow> real \<Rightarrow> real" where
  "calculateMonthlyPI principal' annualRate loanTermYears =
     snd (calculateMonthlyPI_at principal' annualRate loanTermYears)"

subsection \<open>\<^verbatim>\<open>calculateProforma\<close>\<close>

text \<open>
  Two of the local constants of \<^verbatim>\<open>calculateProforma\<close> are not fields of its result:
  \<^verbatim>\<open>loanAmount\<close> (lines 74 and 75) and \<^verbatim>\<open>monthlyPI\<close> (line 77). They are definitions
  of their own, and \<open>calculateProforma\<close> below uses them where the source uses the
  constants.
\<close>

definition downPaymentAmount :: "Assumptions \<Rightarrow> real" where
  "downPaymentAmount assumptions = purchasePrice assumptions * downPaymentPercent assumptions"

definition loanAmount :: "Assumptions \<Rightarrow> real" where
  "loanAmount assumptions = purchasePrice assumptions - downPaymentAmount assumptions"

definition monthlyPI :: "Assumptions \<Rightarrow> real" where
  "monthlyPI assumptions =
     calculateMonthlyPI (loanAmount assumptions) (interestRate assumptions) (loanTerm assumptions)"

definition calculateProforma :: "Assumptions \<Rightarrow> PersonalInfo \<Rightarrow> Scenario \<Rightarrow> Proforma" where
  "calculateProforma assumptions personal scenario' =
    (let
      \<comment> \<open>Core purchase and loan calculations\<close>
      totalCashNeeded =
        downPaymentAmount assumptions + (purchasePrice assumptions * closingCostsPercent assumptions);
      annualMortgagePayment = monthlyPI assumptions * 12;
      \<comment> \<open>Year 1 interest (approximation)\<close>
      year1Interest = loanAmount assumptions * interestRate assumptions;
      year1Principal = annualMortgagePayment - year1Interest;
      \<comment> \<open>Core operating expenses\<close>
      annualPropertyTax = purchasePrice assumptions * propertyTaxPercent assumptions;
      annualHomeInsurance = purchasePrice assumptions * homeInsurancePercent assumptions;
      annualHOA = monthlyHOA assumptions * 12;
      annualUtilities = utilitiesMonthly assumptions * 12;
      \<comment> \<open>Depreciation basis\<close>
      depreciationBasis = purchasePrice assumptions * (1 - landValuePercent assumptions);
      annualDepreciation = depreciationBasis / 27.5;
      combinedTaxRate = federalTaxRate personal + stateTaxRate personal;
      opportunityCost = totalCashNeeded * opportunityCostRate personal;
      proforma = \<lparr>
        scenario = scenario',
        totalCashNeeded = totalCashNeeded,
        annualPropertyTax = annualPropertyTax,
        annualHomeInsurance = annualHomeInsurance,
        annualHOA = annualHOA,
        annualUtilities = annualUtilities,
        opportunityCost = opportunityCost,
        year1Principal = year1Principal \<rparr>
    in
      if scenario' = Rental \<or> scenario' = Airbnb then
        (let
          \<comment> \<open>Income\<close>
          grossPotentialIncome =
            (if scenario' = Rental then monthlyRent assumptions * 12
             else avgNightlyRate assumptions * 365 * occupancyRate assumptions);
          vacancyLoss =
            (if scenario' = Rental then grossPotentialIncome * vacancyPercent assumptions
             else 0);
          effectiveGrossIncome = grossPotentialIncome - vacancyLoss;
          \<comment> \<open>Scenario-specific operating expenses\<close>
          maintenance = effectiveGrossIncome * maintenancePercent assumptions;
          managementFee = effectiveGrossIncome * mgmtFeePercent assumptions;
          platformFee =
            (if scenario' = Airbnb then effectiveGrossIncome * airbnbFeePercent assumptions
             else 0);
          totalOpEx =
            annualPropertyTax + annualHomeInsurance + annualHOA + annualUtilities +
            maintenance + managementFee + platformFee;
          totalExpenses = totalOpEx + annualMortgagePayment + opportunityCost;
          \<comment> \<open>Investment calculations\<close>
          netOperatingIncome = effectiveGrossIncome - totalOpEx;
          cashFlowBeforeTax = netOperatingIncome - annualMortgagePayment;
          \<comment> \<open>Tax calculations\<close>
          deductibleExpenses = totalOpEx + year1Interest + annualDepreciation;
          netTaxableIncome = effectiveGrossIncome - deductibleExpenses;
          taxSavings =
            (if netTaxableIncome < 0 then \<bar>netTaxableIncome\<bar> * combinedTaxRate else 0);
          taxesOwed =
            (if netTaxableIncome > 0 then netTaxableIncome * combinedTaxRate else 0);
          taxBenefit = taxSavings - taxesOwed;
          cashFlowAfterTax = cashFlowBeforeTax + taxBenefit;
          \<comment> \<open>Key metrics\<close>
          capRate = netOperatingIncome / purchasePrice assumptions;
          cashOnCashReturn = cashFlowAfterTax / totalCashNeeded;
          cashFlowPerMonth = cashFlowAfterTax / 12
        in RentalResult \<lparr>
          scenario = scenario',
          totalCashNeeded = BaseProforma.totalCashNeeded proforma,
          annualPropertyTax = BaseProforma.annualPropertyTax proforma,
          annualHomeInsurance = BaseProforma.annualHomeInsurance proforma,
          annualHOA = BaseProforma.annualHOA proforma,
          annualUtilities = BaseProforma.annualUtilities proforma,
          opportunityCost = BaseProforma.opportunityCost proforma,
          year1Principal = BaseProforma.year1Principal proforma,
          grossPotentialIncome = grossPotentialIncome,
          vacancyLoss = vacancyLoss,
          effectiveGrossIncome = effectiveGrossIncome,
          totalOpEx = totalOpEx,
          maintenance = maintenance,
          managementFee = managementFee,
          platformFee = platformFee,
          annualMortgagePayment = annualMortgagePayment,
          totalExpenses = totalExpenses,
          cashFlowBeforeTax = cashFlowBeforeTax,
          year1Interest = year1Interest,
          annualDepreciation = annualDepreciation,
          netTaxableIncome = netTaxableIncome,
          taxBenefit = taxBenefit,
          cashFlowAfterTax = cashFlowAfterTax,
          capRate = capRate,
          cashOnCashReturn = cashOnCashReturn,
          cashFlowPerMonth = cashFlowPerMonth \<rparr>)
      else if scenario' = Owner then
        (let
          grossAvoidedRent = equivalentRent assumptions * 12;
          \<comment> \<open>Total housing cost\<close>
          annualPITI = annualMortgagePayment + annualPropertyTax + annualHomeInsurance;
          totalAnnualCost = annualPITI + annualHOA + annualUtilities;
          totalExpenses = totalAnnualCost + opportunityCost;
          \<comment> \<open>Tax savings (simplified itemized deduction)\<close>
          deductiblePropTax = min annualPropertyTax 10000;
          deductibleInterest = year1Interest;
          totalDeductions = deductiblePropTax + deductibleInterest;
          taxSavings = totalDeductions * combinedTaxRate;
          netAnnualCost = totalAnnualCost - taxSavings;
          netBenefit = grossAvoidedRent - netAnnualCost;
          \<comment> \<open>Monthly costs\<close>
          monthlyTotalCost = totalAnnualCost / 12;
          netMonthlyCost = netAnnualCost / 12
        in OwnerResult \<lparr>
          scenario = scenario',
          totalCashNeeded = BaseProforma.totalCashNeeded proforma,
          annualPropertyTax = BaseProforma.annualPropertyTax proforma,
          annualHomeInsurance = BaseProforma.annualHomeInsurance proforma,
          annualHOA = BaseProforma.annualHOA proforma,
          annualUtilities = BaseProforma.annualUtilities proforma,
          opportunityCost = BaseProforma.opportunityCost proforma,
          year1Principal = BaseProforma.year1Principal proforma,
          grossAvoidedRent = grossAvoidedRent,
          totalAnnualCost = totalAnnualCost,
          OwnerProforma.totalExpenses = totalExpenses,
          annualPITI = annualPITI,
          OwnerProforma.year1Interest = year1Interest,
          deductiblePropTax = deductiblePropTax,
          totalDeductions = totalDeductions,
          OwnerProforma.taxBenefit = taxSavings,
          netAnnualCost = netAnnualCost,
          netBenefit = netBenefit,
          monthlyTotalCost = monthlyTotalCost,
          netMonthlyCost = netMonthlyCost \<rparr>)
      else BaseResult proforma)"

text \<open>
  Every variant of \<^verbatim>\<open>Proforma\<close> extends \<^verbatim>\<open>BaseProforma\<close>: the base fields of a result
  (\<^verbatim>\<open>proforma.totalCashNeeded\<close> and so on) are read through \<open>baseOf\<close>, and
  \<^verbatim>\<open>proforma.year1Interest\<close>, which both proper variants have and the base has not,
  through \<open>year1InterestOf\<close>.
\<close>

fun baseOf :: "Proforma \<Rightarrow> BaseProforma" where
  "baseOf (RentalResult r) = BaseProforma.truncate r"
| "baseOf (OwnerResult r) = BaseProforma.truncate r"
| "baseOf (BaseResult r) = r"

fun year1InterestOf :: "Proforma \<Rightarrow> real option" where
  "year1InterestOf (RentalResult r) = Some (RentalProforma.year1Interest r)"
| "year1InterestOf (OwnerResult r) = Some (OwnerProforma.year1Interest r)"
| "year1InterestOf (BaseResult r) = None"

subsection \<open>The default records of \<^verbatim>\<open>src/utils/defaults.ts\<close>\<close>

definition defaultAssumptions :: Assumptions where
  "defaultAssumptions = \<lparr>
     purchasePrice = 500000,
     downPaymentPercent = 0.20,
     interestRate = 0.065,
     loanTerm = 30,
     closingCostsPercent = 0.03,
     landValuePercent = 0.20,
     monthlyRent = 3000,
     vacancyPercent = 0.05,
     avgNightlyRate = 250,
     occupancyRate = 0.65,
     airbnbFeePercent = 0.03,
     equivalentRent = 3200,
     propertyTaxPercent = 0.012,
     homeInsurancePercent = 0.004,
     monthlyHOA = 50,
     maintenancePercent = 0.08,
     utilitiesMonthly = 200,
     mgmtFeePercent = 0.10 \<rparr>"

definition defaultPersonal :: PersonalInfo where
  "defaultPersonal =
     \<lparr> federalTaxRate = 0.24, stateTaxRate = 0.05, opportunityCostRate = 0.07 \<rparr>"

subsection \<open>The seeded generator\<close>

















subsection \<open>The mortgage formula: theorems\<close>



text \<open>
  C2. The claim: for every principal \<open>> 0\<close> and term \<open>> 0\<close>, the payment at rate 0 is the
  principal divided by the number of monthly payments. The code returns 0 there: the
  guard of line 32 tests \<^verbatim>\<open>annualRate <= 0\<close> and returns before line 36, whose
  \<^verbatim>\<open>principal / numberOfPayments\<close> is what the claim states. At principal 1200, rate 0
  and one year the code returns 0, the claim says 100.
\<close>

theorem C2_zero_rate_returns_zero:
  "calculateMonthlyPI 1200 0 1 = 0 \<and> calculateMonthlyPI 1200 0 1 \<noteq> 1200 / (1 * 12)"
  by (simp add: calculateMonthlyPI_def calculateMonthlyPI_at_def)



subsection \<open>The proforma: theorems\<close>

lemma rental_taxBenefit:
  assumes "scenario' = Rental \<or> scenario' = Airbnb"
  shows "\<exists>r. calculateProforma assumptions personal scenario' = RentalResult r \<and>
     taxBenefit r =
       (if netTaxableIncome r < 0
        then \<bar>netTaxableIncome r\<bar> * (federalTaxRate personal + stateTaxRate personal) else 0) -
       (if netTaxableIncome r > 0
        then netTaxableIncome r * (federalTaxRate personal + stateTaxRate personal) else 0)"
  using assms unfolding calculateProforma_def Let_def
  apply (elim disjE)
   apply (simp_all only: simp_thms if_True if_False Scenario.distinct)
   apply (rule exI, rule conjI, rule refl, simp only: RentalProforma.select_convs)+
  done

text \<open>
  C3. In the rental and airbnb scenarios the result is a \<^verbatim>\<open>RentalProforma\<close> whose
  \<^verbatim>\<open>taxBenefit\<close> is \<open>|netTaxableIncome| \<times> combinedTaxRate\<close> when \<^verbatim>\<open>netTaxableIncome\<close> is
  negative and \<open>- (netTaxableIncome \<times> combinedTaxRate)\<close> when it is positive, where
  \<open>combinedTaxRate = federalTaxRate + stateTaxRate\<close>.
\<close>

theorem C3_taxBenefit_by_sign:
  "scenario' = Rental \<or> scenario' = Airbnb \<Longrightarrow>
   \<exists>r. calculateProforma assumptions personal scenario' = RentalResult r \<and>
     (netTaxableIncome r < 0 \<longrightarrow>
        taxBenefit r = \<bar>netTaxableIncome r\<bar> * (federalTaxRate personal + stateTaxRate personal)) \<and>
     (netTaxableIncome r > 0 \<longrightarrow>
        taxBenefit r = - (netTaxableIncome r * (federalTaxRate personal + stateTaxRate personal)))"
proof -
  assume "scenario' = Rental \<or> scenario' = Airbnb"
  then obtain r where r: "calculateProforma assumptions personal scenario' = RentalResult r"
    and tax: "taxBenefit r =
       (if netTaxableIncome r < 0
        then \<bar>netTaxableIncome r\<bar> * (federalTaxRate personal + stateTaxRate personal) else 0) -
       (if netTaxableIncome r > 0
        then netTaxableIncome r * (federalTaxRate personal + stateTaxRate personal) else 0)"
    using rental_taxBenefit by blast
  from tax have "netTaxableIncome r < 0 \<longrightarrow>
        taxBenefit r = \<bar>netTaxableIncome r\<bar> * (federalTaxRate personal + stateTaxRate personal)"
    by simp
  moreover from tax have "netTaxableIncome r > 0 \<longrightarrow>
        taxBenefit r = - (netTaxableIncome r * (federalTaxRate personal + stateTaxRate personal))"
    by simp
  ultimately show ?thesis using r by blast
qed

text \<open>
  The theorem at the default records: a rental with a taxable loss (the tax benefit is
  positive), and the same property bought without a loan, whose taxable income is
  positive (the tax benefit is negative).
\<close>

theorem C3_taxBenefit_by_sign_witness:
  "(\<exists>r. calculateProforma defaultAssumptions defaultPersonal Rental = RentalResult r \<and>
      netTaxableIncome r = - (258516 / 11) \<and> taxBenefit r = 1874241 / 275) \<and>
   (\<exists>r. calculateProforma (defaultAssumptions\<lparr>downPaymentPercent := 1\<rparr>) defaultPersonal Rental =
        RentalResult r \<and>
      netTaxableIncome r = 27484 / 11 \<and> taxBenefit r = - (199259 / 275))"
  using C3_taxBenefit_by_sign [of Rental defaultAssumptions defaultPersonal]
    C3_taxBenefit_by_sign [of Rental "defaultAssumptions\<lparr>downPaymentPercent := 1\<rparr>" defaultPersonal]
  by (simp add: calculateProforma_def Let_def defaultAssumptions_def defaultPersonal_def
      loanAmount_def downPaymentAmount_def)

text \<open>
  C5. The vacancy loss is \<open>grossPotentialIncome \<times> vacancyPercent\<close> in the rental scenario
  and 0 in the airbnb scenario. In the rental scenario the gross potential income is
  twelve months of rent, with no occupancy factor; in the airbnb scenario it is
  \<open>avgNightlyRate \<times> 365 \<times> occupancyRate\<close> and nothing is taken off it for vacancy.
\<close>

theorem C5_vacancyLoss:
  "(\<exists>r. calculateProforma assumptions personal Rental = RentalResult r \<and>
      grossPotentialIncome r = monthlyRent assumptions * 12 \<and>
      vacancyLoss r = grossPotentialIncome r * vacancyPercent assumptions) \<and>
   (\<exists>r. calculateProforma assumptions personal Airbnb = RentalResult r \<and>
      grossPotentialIncome r =
        avgNightlyRate assumptions * 365 * occupancyRate assumptions \<and>
      vacancyLoss r = 0 \<and>
      effectiveGrossIncome r = grossPotentialIncome r)"
  by (simp add: calculateProforma_def Let_def)

text \<open>
  C6. In the owner scenario the result is an \<^verbatim>\<open>OwnerProforma\<close> whose
  \<^verbatim>\<open>deductiblePropTax\<close> is \<open>min(annualPropertyTax, 10000)\<close>, so at most 10000.
\<close>

theorem C6_deductiblePropTax:
  "\<exists>r. calculateProforma assumptions personal Owner = OwnerResult r \<and>
     annualPropertyTax r = purchasePrice assumptions * propertyTaxPercent assumptions \<and>
     deductiblePropTax r = min (annualPropertyTax r) 10000 \<and>
     deductiblePropTax r \<le> 10000"
  by (simp add: calculateProforma_def Let_def)

text \<open>
  The theorem at the default records (a property tax of 6000, under the cap) and at a
  price of one million (a property tax of 12000, cut to 10000).
\<close>

theorem C6_deductiblePropTax_witness:
  "(\<exists>r. calculateProforma defaultAssumptions defaultPersonal Owner = OwnerResult r \<and>
      annualPropertyTax r = 6000 \<and> deductiblePropTax r = 6000) \<and>
   (\<exists>r. calculateProforma (defaultAssumptions\<lparr>purchasePrice := 1000000\<rparr>) defaultPersonal Owner =
        OwnerResult r \<and>
      annualPropertyTax r = 12000 \<and> deductiblePropTax r = 10000)"
  using C6_deductiblePropTax [of defaultAssumptions defaultPersonal]
    C6_deductiblePropTax [of "defaultAssumptions\<lparr>purchasePrice := 1000000\<rparr>" defaultPersonal]
  by (simp add: calculateProforma_def Let_def defaultAssumptions_def defaultPersonal_def)

text \<open>
  C7. In every scenario \<open>year1Interest = loanAmount \<times> interestRate\<close> and
  \<open>year1Principal = annualMortgagePayment - year1Interest\<close>, where
  \<open>loanAmount = purchasePrice \<times> (1 - downPaymentPercent)\<close> and the annual mortgage payment
  is twelve times \<open>calculateMonthlyPI loanAmount interestRate loanTerm\<close>: the interest of
  the first year is the flat product, not the sum over an amortization schedule.
\<close>

theorem C7_year1Interest_flat:
  "loanAmount assumptions = purchasePrice assumptions * (1 - downPaymentPercent assumptions) \<and>
   year1InterestOf (calculateProforma assumptions personal scenario') =
     Some (loanAmount assumptions * interestRate assumptions) \<and>
   year1Principal (baseOf (calculateProforma assumptions personal scenario')) =
     12 * calculateMonthlyPI (loanAmount assumptions) (interestRate assumptions)
            (loanTerm assumptions) -
     loanAmount assumptions * interestRate assumptions"
  by (cases scenario')
     (simp_all add: calculateProforma_def Let_def loanAmount_def downPaymentAmount_def
        monthlyPI_def BaseProforma.truncate_def algebra_simps)

text \<open>
  C9. For fixed assumptions and personal profile, the seven base fields of the result
  (\<^verbatim>\<open>totalCashNeeded\<close>, \<^verbatim>\<open>annualPropertyTax\<close>, \<^verbatim>\<open>annualHomeInsurance\<close>, \<^verbatim>\<open>annualHOA\<close>,
  \<^verbatim>\<open>annualUtilities\<close>, \<^verbatim>\<open>opportunityCost\<close>, \<^verbatim>\<open>year1Principal\<close>) are the same for any two
  scenarios.
\<close>

theorem C9_base_fields_scenario_independent:
  "totalCashNeeded (baseOf (calculateProforma assumptions personal s1)) =
     totalCashNeeded (baseOf (calculateProforma assumptions personal s2)) \<and>
   annualPropertyTax (baseOf (calculateProforma assumptions personal s1)) =
     annualPropertyTax (baseOf (calculateProforma assumptions personal s2)) \<and>
   annualHomeInsurance (baseOf (calculateProforma assumptions personal s1)) =
     annualHomeInsurance (baseOf (calculateProforma assumptions personal s2)) \<and>
   annualHOA (baseOf (calculateProforma assumptions personal s1)) =
     annualHOA (baseOf (calculateProforma assumptions personal s2)) \<and>
   annualUtilities (baseOf (calculateProforma assumptions personal s1)) =
     annualUtilities (baseOf (calculateProforma assumptions personal s2)) \<and>
   opportunityCost (baseOf (calculateProforma assumptions personal s1)) =
     opportunityCost (baseOf (calculateProforma assumptions personal s2)) \<and>
   year1Principal (baseOf (calculateProforma assumptions personal s1)) =
     year1Principal (baseOf (calculateProforma assumptions personal s2))"
  by (cases s1; cases s2)
     (simp_all add: calculateProforma_def Let_def BaseProforma.truncate_def)

subsection \<open>The end-to-end example\<close>

text \<open>
  Bounds on a power of a positive real from bounds on two smaller powers; the growth
  factor \<open>(1 + 0.065/12)^360\<close> is enclosed by repeated squaring.
\<close>

lemma power_interval_mult:
  fixes x :: real
  assumes "l1 \<le> x ^ m \<and> x ^ m \<le> u1" and "l2 \<le> x ^ n \<and> x ^ n \<le> u2"
    and "0 \<le> l1" and "0 \<le> l2" and "l \<le> l1 * l2" and "u1 * u2 \<le> u"
  shows "l \<le> x ^ (m + n) \<and> x ^ (m + n) \<le> u"
proof
  have "l1 * l2 \<le> x ^ m * x ^ n"
    using assms by (intro mult_mono) auto
  with assms show "l \<le> x ^ (m + n)"
    by (simp add: power_add)
  have "x ^ m * x ^ n \<le> u1 * u2"
    using assms by (intro mult_mono) auto
  with assms show "x ^ (m + n) \<le> u"
    by (simp add: power_add)
qed

lemma growth_factor_bounds:
  "6.9917978612 \<le> (2413 / 2400 :: real) ^ 360 \<and> (2413 / 2400 :: real) ^ 360 \<le> 6.9917980976"
proof -
  define x :: real where "x = 2413 / 2400"
  have b1: "2413 / 2400 \<le> x ^ 1 \<and> x ^ 1 \<le> 2413 / 2400"
    by (simp add: x_def)
  have b2: "1.0108626736 \<le> x ^ 2 \<and> x ^ 2 \<le> 1.0108626737"
    using power_interval_mult [OF b1 b1, where l = "1.0108626736" and u = "1.0108626737"]
    by (simp add: power2_eq_square)
  have b4: "1.0218433448 \<le> x ^ 4 \<and> x ^ 4 \<le> 1.0218433451"
    using power_interval_mult [OF b2 b2, where l = "1.0218433448" and u = "1.0218433451"] by simp
  have b5: "1.0273783295 \<le> x ^ 5 \<and> x ^ 5 \<le> 1.0273783299"
    using power_interval_mult [OF b4 b1, where l = "1.0273783295" and u = "1.0273783299"] by simp
  have b10: "1.0555062319 \<le> x ^ 10 \<and> x ^ 10 \<le> 1.0555062328"
    using power_interval_mult [OF b5 b5, where l = "1.0555062319" and u = "1.0555062328"] by simp
  have b20: "1.1140934055 \<le> x ^ 20 \<and> x ^ 20 \<le> 1.1140934075"
    using power_interval_mult [OF b10 b10, where l = "1.1140934055" and u = "1.1140934075"] by simp
  have b40: "1.2412041161 \<le> x ^ 40 \<and> x ^ 40 \<le> 1.2412041207"
    using power_interval_mult [OF b20 b20, where l = "1.2412041161" and u = "1.2412041207"] by simp
  have b45: "1.2751862113 \<le> x ^ 45 \<and> x ^ 45 \<le> 1.2751862166"
    using power_interval_mult [OF b40 b5, where l = "1.2751862113" and u = "1.2751862166"] by simp
  have b90: "1.6260998734 \<le> x ^ 90 \<and> x ^ 90 \<le> 1.6260998871"
    using power_interval_mult [OF b45 b45, where l = "1.6260998734" and u = "1.6260998871"] by simp
  have b180: "2.6442007982 \<le> x ^ 180 \<and> x ^ 180 \<le> 2.6442008429"
    using power_interval_mult [OF b90 b90, where l = "2.6442007982" and u = "2.6442008429"] by simp
  have b360: "6.9917978612 \<le> x ^ 360 \<and> x ^ 360 \<le> 6.9917980976"
    using power_interval_mult [OF b180 b180, where l = "6.9917978612" and u = "6.9917980976"] by simp
  then show ?thesis
    by (simp only: x_def)
qed

text \<open>
  C8. For the assumptions and personal profile of the end-to-end example (the fields the
  example does not give are arbitrary) and the rental scenario: the loan amount is 400000;
  the monthly payment is the annuity formula at \<open>r = 0.065/12\<close> and \<open>n = 360\<close> and lies
  within one cent of 2528.27; the gross potential income is 36000, the vacancy loss 1800
  and the effective gross income 34200.
\<close>

theorem C8_end_to_end:
  fixes cc nr oc fee er :: real
  defines "a \<equiv> \<lparr>
     purchasePrice = 500000,
     downPaymentPercent = 0.20,
     interestRate = 0.065,
     loanTerm = 30,
     closingCostsPercent = cc,
     landValuePercent = 0.20,
     monthlyRent = 3000,
     vacancyPercent = 0.05,
     avgNightlyRate = nr,
     occupancyRate = oc,
     airbnbFeePercent = fee,
     equivalentRent = er,
     propertyTaxPercent = 0.012,
     homeInsurancePercent = 0.004,
     monthlyHOA = 50,
     maintenancePercent = 0.08,
     utilitiesMonthly = 200,
     mgmtFeePercent = 0.10 \<rparr>"
    and "p \<equiv> \<lparr> federalTaxRate = 0.24, stateTaxRate = 0.05, opportunityCostRate = 0.07 \<rparr>"
  shows "loanAmount a = 400000 \<and>
    monthlyPI a =
      400000 * (0.065 / 12 * (1 + 0.065 / 12) ^ 360) / ((1 + 0.065 / 12) ^ 360 - 1) \<and>
    \<bar>monthlyPI a - 2528.27\<bar> \<le> 0.01 \<and>
    (\<exists>r. calculateProforma a p Rental = RentalResult r \<and>
       annualMortgagePayment r = monthlyPI a * 12 \<and>
       grossPotentialIncome r = 36000 \<and>
       vacancyLoss r = 1800 \<and>
       effectiveGrossIncome r = 34200)"
proof (intro conjI)
  show la: "loanAmount a = 400000"
    by (simp add: a_def loanAmount_def downPaymentAmount_def)
  define q :: real where "q = (2413 / 2400) ^ 360"
  have pw: "(2413 / 2400 :: real) powr 360 = q"
    unfolding q_def by (simp add: powr_numeral)
  have "monthlyPI a = calculateMonthlyPI 400000 0.065 30"
    unfolding monthlyPI_def la by (simp add: a_def)
  also have "\<dots> = 400000 * (13 / 2400 * q) / (q - 1)"
    using pw
    by (simp add: calculateMonthlyPI_def calculateMonthlyPI_at_def Let_def)
  finally have pi: "monthlyPI a = 400000 * (13 / 2400 * q) / (q - 1)" .
  then show "monthlyPI a =
      400000 * (0.065 / 12 * (1 + 0.065 / 12) ^ 360) / ((1 + 0.065 / 12) ^ 360 - 1)"
    by (simp add: q_def)
  have q: "6.9917978612 \<le> q" "q \<le> 6.9917980976"
    using growth_factor_bounds by (simp_all add: q_def)
  then have pos: "0 < q - 1"
    by simp
  have "2528.26 * (q - 1) \<le> 400000 * (13 / 2400 * q)"
    using q by simp
  then have lo: "2528.26 \<le> monthlyPI a"
    using pos by (simp add: pi pos_le_divide_eq)
  have "400000 * (13 / 2400 * q) \<le> 2528.28 * (q - 1)"
    using q by simp
  then have hi: "monthlyPI a \<le> 2528.28"
    using pos by (simp add: pi pos_divide_le_eq)
  from lo hi show "\<bar>monthlyPI a - 2528.27\<bar> \<le> 0.01"
    by linarith
  show "\<exists>r. calculateProforma a p Rental = RentalResult r \<and>
       annualMortgagePayment r = monthlyPI a * 12 \<and>
       grossPotentialIncome r = 36000 \<and>
       vacancyLoss r = 1800 \<and>
       effectiveGrossIncome r = 34200"
    by (simp add: calculateProforma_def Let_def a_def)
qed

subsection \<open>The seeded generator: theorems\<close>








end
